theory Spec2Isabelle
  imports Main
begin

section \<open>Go syntax trees (the part of go/ast and go/token the migrator touches)\<close>

text \<open>
  The migrator works on the tree that go/parser returns. Only the node kinds that the
  program builds or inspects are modelled. A \<open>*ast.FieldList\<close> is the list of its
  fields (the program treats a nil list and an empty list alike), an \<open>*ast.Ident\<close> in a
  name position is its \<open>Name\<close>, and a nil function body is \<open>None\<close>.
\<close>

datatype token =
    T_DEFINE | T_ASSIGN | T_NEQ | T_AND | T_STRING | T_INT
  | T_IMPORT | T_TYPE | T_VAR | T_CONST

datatype expr =
    Ident string
  | BasicLit token string
  | SelectorExpr expr string
  | CallExpr expr "expr list"
  | StarExpr expr
  | UnaryExpr token expr
  | BinaryExpr expr token expr
  | CompositeLit expr "expr list"
  | ArrayType expr
  | StructType "field list"
  | FuncLit "field list" "field list" "stmt list"
and stmt =
    ExprStmt expr
  | AssignStmt "expr list" token "expr list"
  | IfStmt expr "stmt list" "stmt list"
  | ReturnStmt "expr list"
  | BlockStmt "stmt list"
  | DeferStmt expr
and field =
    Field "string list" expr

text \<open>
  \<open>ImportSpec name path\<close>: \<open>name\<close> is the explicit alias (\<open>None\<close> when \<open>Name\<close> is nil),
  \<open>path\<close> is \<open>Path.Value\<close>, the literal as written, quotes included.
\<close>

datatype spec =
    ImportSpec "string option" string
  | TypeSpec string expr
  | ValueSpec "string list" "expr list"

text \<open>\<open>FuncDecl recv name params results body\<close>.\<close>

datatype decl =
    GenDecl token "spec list"
  | FuncDecl "field list" string "field list" "field list" "stmt list option"

record File =
  Name :: string
  Decls :: "decl list"

section \<open>Results and errors\<close>

text \<open>
  The program reports failures as \<open>fmt.Errorf\<close> values; each constructor stands for one
  message:
  \<^item> \<open>EntryNotFound\<close>: "main function not found";
  \<^item> \<open>StartCallNotFound\<close>: "lambda.Start() call not found in main function";
  \<^item> \<open>HandlerNotFound\<close>: "handler function ... not found" (both classifiers);
  \<^item> \<open>TypeLoadFailed\<close>: "failed to load package" and "no packages found";
  \<^item> \<open>NotAFunction\<close>: "handler is not a function";
  \<^item> \<open>Panic\<close>: a run-time panic (nil dereference, slice bounds out of range).
  \<open>UnsupportedHandlerExpression\<close> and \<open>SignatureAnalysisFailed\<close> belong to the error
  taxonomy of the specification; no path of the program produces them.
\<close>

datatype error =
    EntryNotFound
  | StartCallNotFound
  | UnsupportedHandlerExpression
  | SignatureAnalysisFailed
  | HandlerNotFound
  | TypeLoadFailed
  | NotAFunction
  | Panic

record HandlerSignature =
  HasContext :: bool
  HasInput :: bool
  HasOutput :: bool
  HasError :: bool

record HandlerReference =
  SimpleName :: string
  QualifiedName :: string

section \<open>analyzeHandlerSignature\<close>

text \<open>
  The parameter block of \<open>analyzeHandlerSignature\<close>. \<open>numParams\<close> is the number of
  fields of the parameter list. The \<open>else if numParams == 1\<close> branch belongs to the type
  assertion \<open>firstParam.Type.(*ast.SelectorExpr)\<close>: it runs only when the first
  parameter's type is not a selector expression at all.
\<close>

definition analyzeParams :: "field list \<Rightarrow> HandlerSignature \<Rightarrow> HandlerSignature" where
  "analyzeParams params sig =
     (case params of
        [] \<Rightarrow> sig
      | Field names ty # rest \<Rightarrow>
          (let numParams = length params in
           case ty of
             SelectorExpr x sel \<Rightarrow>
               (case x of
                  Ident name \<Rightarrow>
                    if name = ''context'' \<and> sel = ''Context''
                    then (let sig1 = sig\<lparr>HasContext := True\<rparr>
                          in if numParams = 2 then sig1\<lparr>HasInput := True\<rparr> else sig1)
                    else sig
                | _ \<Rightarrow> sig)
           | _ \<Rightarrow> if numParams = 1 then sig\<lparr>HasInput := True\<rparr> else sig))"

definition analyzeResults :: "field list \<Rightarrow> HandlerSignature \<Rightarrow> HandlerSignature" where
  "analyzeResults results sig =
     (case results of
        [] \<Rightarrow> sig
      | Field names ty # rest \<Rightarrow>
          (let numResults = length results in
           if numResults = 1 then
             (case ty of
                Ident name \<Rightarrow> if name = ''error'' then sig\<lparr>HasError := True\<rparr> else sig
              | _ \<Rightarrow> sig)
           else if numResults = 2 then sig\<lparr>HasOutput := True, HasError := True\<rparr>
           else sig))"

definition emptySignature :: HandlerSignature where
  "emptySignature =
     \<lparr>HasContext = False, HasInput = False, HasOutput = False, HasError = False\<rparr>"

definition signatureOf :: "field list \<Rightarrow> field list \<Rightarrow> HandlerSignature" where
  "signatureOf params results = analyzeResults results (analyzeParams params emptySignature)"

text \<open>
  \<open>ast.Inspect(file, f)\<close> calls \<open>f\<close> on every node in depth-first order. \<open>*ast.FuncDecl\<close>
  nodes occur only as elements of \<open>file.Decls\<close>, so the callback's effect is a pass over
  the declaration list. Returning \<open>false\<close> only keeps the walk out of the children of
  that node; the walk goes on with the next declaration, and a later declaration of the
  same name overwrites \<open>sig\<close>.
\<close>

fun inspectHandler :: "string \<Rightarrow> decl list \<Rightarrow> HandlerSignature option \<Rightarrow> HandlerSignature option" where
  "inspectHandler handlerName [] sig = sig"
| "inspectHandler handlerName (GenDecl tok specs # ds) sig = inspectHandler handlerName ds sig"
| "inspectHandler handlerName (FuncDecl recv name params results body # ds) sig =
     (if name = handlerName
      then inspectHandler handlerName ds (Some (signatureOf params results))
      else inspectHandler handlerName ds sig)"

definition analyzeHandlerSignature :: "File \<Rightarrow> string \<Rightarrow> error + HandlerSignature" where
  "analyzeHandlerSignature f handlerName =
     (case inspectHandler handlerName (Decls f) None of
        None \<Rightarrow> Inl HandlerNotFound
      | Some sig \<Rightarrow> Inr sig)"

section \<open>findLambdaHandler\<close>

text \<open>
  What the inner callback does at a call expression \<open>fn(args...)\<close>: when \<open>fn\<close> is the
  selector \<open>lambda.Start\<close>, there is at least one argument, and the first argument is a
  bare identifier or a selector on an identifier, it stores a reference and returns
  \<open>false\<close> (\<open>Some\<close>); in every other case it stores nothing and returns \<open>true\<close> (\<open>None\<close>).
\<close>

definition startCallHandler :: "expr \<Rightarrow> expr list \<Rightarrow> HandlerReference option" where
  "startCallHandler fn args =
     (case fn of
        SelectorExpr x sel \<Rightarrow>
          (case x of
             Ident name \<Rightarrow>
               if name = ''lambda'' \<and> sel = ''Start'' then
                 (case args of
                    [] \<Rightarrow> None
                  | a # _ \<Rightarrow>
                      (case a of
                         Ident h \<Rightarrow> Some \<lparr>SimpleName = h, QualifiedName = h\<rparr>
                       | SelectorExpr px s \<Rightarrow>
                           (case px of
                              Ident p \<Rightarrow> Some \<lparr>SimpleName = s, QualifiedName = p @ ''.'' @ s\<rparr>
                            | _ \<Rightarrow> None)
                       | _ \<Rightarrow> None))
               else None
           | _ \<Rightarrow> None)
      | _ \<Rightarrow> None)"

text \<open>
  \<open>ast.Inspect(fn.Body, f)\<close> as state passing: the state is the variable \<open>handlerRef\<close>.
  The walk visits a node, then its children in the order of go/ast's \<open>Walk\<close>; when the
  callback returns \<open>false\<close> the children of that node are not visited, and the walk
  continues with the node's right siblings.
\<close>

fun inspectExpr :: "expr \<Rightarrow> HandlerReference option \<Rightarrow> HandlerReference option"
  and inspectExprs :: "expr list \<Rightarrow> HandlerReference option \<Rightarrow> HandlerReference option"
  and inspectStmt :: "stmt \<Rightarrow> HandlerReference option \<Rightarrow> HandlerReference option"
  and inspectStmts :: "stmt list \<Rightarrow> HandlerReference option \<Rightarrow> HandlerReference option"
  and inspectField :: "field \<Rightarrow> HandlerReference option \<Rightarrow> HandlerReference option"
  and inspectFields :: "field list \<Rightarrow> HandlerReference option \<Rightarrow> HandlerReference option"
where
  "inspectExpr (Ident n) r = r"
| "inspectExpr (BasicLit k v) r = r"
| "inspectExpr (SelectorExpr x sel) r = inspectExpr x r"
| "inspectExpr (CallExpr fn args) r =
     (case startCallHandler fn args of
        Some h \<Rightarrow> Some h
      | None \<Rightarrow> inspectExprs args (inspectExpr fn r))"
| "inspectExpr (StarExpr x) r = inspectExpr x r"
| "inspectExpr (UnaryExpr op x) r = inspectExpr x r"
| "inspectExpr (BinaryExpr x op y) r = inspectExpr y (inspectExpr x r)"
| "inspectExpr (CompositeLit ty elts) r = inspectExprs elts (inspectExpr ty r)"
| "inspectExpr (ArrayType elt) r = inspectExpr elt r"
| "inspectExpr (StructType flds) r = inspectFields flds r"
| "inspectExpr (FuncLit params results body) r =
     inspectStmts body (inspectFields results (inspectFields params r))"
| "inspectExprs [] r = r"
| "inspectExprs (e # es) r = inspectExprs es (inspectExpr e r)"
| "inspectStmt (ExprStmt x) r = inspectExpr x r"
| "inspectStmt (AssignStmt lhs tok rhs) r = inspectExprs rhs (inspectExprs lhs r)"
| "inspectStmt (IfStmt cond body els) r =
     inspectStmts els (inspectStmts body (inspectExpr cond r))"
| "inspectStmt (ReturnStmt results) r = inspectExprs results r"
| "inspectStmt (BlockStmt ss) r = inspectStmts ss r"
| "inspectStmt (DeferStmt call) r = inspectExpr call r"
| "inspectStmts [] r = r"
| "inspectStmts (s # ss) r = inspectStmts ss (inspectStmt s r)"
| "inspectField (Field names ty) r = inspectExpr ty r"
| "inspectFields [] r = r"
| "inspectFields (f # fs) r = inspectFields fs (inspectField f r)"

text \<open>
  The outer \<open>ast.Inspect(file, ...)\<close>: every \<open>FuncDecl\<close> named \<open>main\<close> sets \<open>foundMain\<close>
  and has its body inspected. \<open>ast.Inspect\<close> on a nil \<open>*ast.BlockStmt\<close> calls the
  callback and then reads the block's statement list through the nil pointer, which
  panics. The state is \<open>(foundMain, handlerRef)\<close>.
\<close>

fun inspectMain :: "decl list \<Rightarrow> bool \<times> HandlerReference option
    \<Rightarrow> error + bool \<times> HandlerReference option" where
  "inspectMain [] st = Inr st"
| "inspectMain (GenDecl tok specs # ds) st = inspectMain ds st"
| "inspectMain (FuncDecl recv name params results body # ds) st =
     (if name = ''main'' then
        (case body of
           None \<Rightarrow> Inl Panic
         | Some b \<Rightarrow> inspectMain ds (True, inspectStmts b (snd st)))
      else inspectMain ds st)"

definition findLambdaHandler :: "File \<Rightarrow> error + HandlerReference" where
  "findLambdaHandler f =
     (case inspectMain (Decls f) (False, None) of
        Inl e \<Rightarrow> Inl e
      | Inr (foundMain, handlerRef) \<Rightarrow>
          if \<not> foundMain then Inl EntryNotFound
          else (case handlerRef of
                  None \<Rightarrow> Inl StartCallNotFound
                | Some h \<Rightarrow> Inr h))"

section \<open>The synthesized declarations\<close>

definition createHandlerStruct :: decl where
  "createHandlerStruct = GenDecl T_TYPE [TypeSpec ''Handler'' (StructType [])]"

definition createNewFunc :: decl where
  "createNewFunc =
     FuncDecl [] ''New'' [] [Field [] (StarExpr (Ident ''Handler''))]
       (Some [ReturnStmt [UnaryExpr T_AND (CompositeLit (Ident ''Handler'') [])]])"

text \<open>\<open>strings.Index(s, ".")\<close>: the position of the first dot, \<open>None\<close> for \<open>-1\<close>.\<close>

fun stringsIndex :: "string \<Rightarrow> char \<Rightarrow> nat option" where
  "stringsIndex [] c = None"
| "stringsIndex (x # xs) c =
     (if x = c then Some 0 else map_option Suc (stringsIndex xs c))"

definition createHandleMethod ::
  "string \<Rightarrow> string \<Rightarrow> string \<Rightarrow> string \<Rightarrow> HandlerSignature \<Rightarrow> decl" where
  "createHandleMethod handlerFuncName contextAlias httpAlias ioAlias handlerSig =
     (let stmts0 =
            (if HasInput handlerSig
             then [AssignStmt [Ident ''body'', Ident ''_''] T_DEFINE
                     [CallExpr (SelectorExpr (Ident ioAlias) ''ReadAll'')
                        [SelectorExpr (Ident ''r'') ''Body'']]]
             else []);
          args0 = (if HasContext handlerSig then [Ident ''ctx''] else []);
          handlerArgs = (if HasInput handlerSig then args0 @ [Ident ''body''] else args0);
          handlerFuncExpr =
            (case stringsIndex handlerFuncName CHR ''.'' of
               Some idx \<Rightarrow>
                 SelectorExpr (Ident (take idx handlerFuncName)) (drop (idx + 1) handlerFuncName)
             | None \<Rightarrow> Ident handlerFuncName);
          stmts1 =
            (if HasOutput handlerSig \<and> HasError handlerSig
             then stmts0 @ [AssignStmt [Ident ''result'', Ident ''err''] T_DEFINE
                              [CallExpr handlerFuncExpr handlerArgs]]
             else if HasError handlerSig
             then stmts0 @ [AssignStmt [Ident ''err''] T_DEFINE
                              [CallExpr handlerFuncExpr handlerArgs]]
             else if HasOutput handlerSig
             then stmts0 @ [AssignStmt [Ident ''result''] T_DEFINE
                              [CallExpr handlerFuncExpr handlerArgs]]
             else stmts0 @ [ExprStmt (CallExpr handlerFuncExpr handlerArgs)]);
          stmts2 =
            (if HasError handlerSig
             then stmts1 @
               [IfStmt (BinaryExpr (Ident ''err'') T_NEQ (Ident ''nil''))
                  [ExprStmt (CallExpr (SelectorExpr (Ident ''log'') ''Printf'')
                     [BasicLit T_STRING (CHR 0x22 # ''Handler error: %v'' @ [CHR 0x22]),
                      Ident ''err'']),
                   ExprStmt (CallExpr (SelectorExpr (Ident ''w'') ''WriteHeader'')
                     [BasicLit T_INT ''500'']),
                   ReturnStmt []]
                  []]
             else stmts1);
          stmts3 =
            (if HasOutput handlerSig
             then stmts2 @
               [ExprStmt (CallExpr
                  (SelectorExpr
                     (CallExpr (SelectorExpr (Ident ''json'') ''NewEncoder'') [Ident ''w''])
                     ''Encode'')
                  [Ident ''result''])]
             else stmts2)
      in FuncDecl [Field [''h''] (StarExpr (Ident ''Handler''))] ''Handle''
           [Field [''ctx''] (SelectorExpr (Ident contextAlias) ''Context''),
            Field [''w''] (SelectorExpr (Ident httpAlias) ''ResponseWriter''),
            Field [''r''] (StarExpr (SelectorExpr (Ident httpAlias) ''Request''))]
           []
           (Some stmts3))"

section \<open>Import rewriting\<close>

text \<open>\<open>strings.Trim(s, "\"")\<close> and \<open>strings.Contains\<close>.\<close>

definition dquote :: char where
  "dquote = CHR 0x22"

definition stringsTrim :: "string \<Rightarrow> char \<Rightarrow> string" where
  "stringsTrim s c = rev (dropWhile (\<lambda>x. x = c) (rev (dropWhile (\<lambda>x. x = c) s)))"

fun hasPrefix :: "string \<Rightarrow> string \<Rightarrow> bool" where
  "hasPrefix s [] = True"
| "hasPrefix [] (y # ys) = False"
| "hasPrefix (x # xs) (y # ys) = (x = y \<and> hasPrefix xs ys)"

fun stringsContains :: "string \<Rightarrow> string \<Rightarrow> bool" where
  "stringsContains [] sub = (sub = [])"
| "stringsContains (x # xs) sub = (hasPrefix (x # xs) sub \<or> stringsContains xs sub)"

text \<open>
  The inner loop of \<open>removeLambdaImport\<close>: \<open>newSpecs\<close> receives the import specs whose
  path does not contain the marker.
\<close>

definition filterSpecs :: "spec list \<Rightarrow> spec list" where
  "filterSpecs specs =
     filter (\<lambda>sp. case sp of
                    ImportSpec name pathValue \<Rightarrow>
                      \<not> stringsContains (stringsTrim pathValue dquote) ''aws-lambda-go''
                  | _ \<Rightarrow> False) specs"

text \<open>
  \<open>removeLambdaImport\<close> ranges over \<open>file.Decls\<close> and, inside the loop, assigns
  \<open>file.Decls = append(file.Decls[:i], file.Decls[i+1:]...)\<close>. The range expression is
  evaluated once, so the loop runs over the original length and reads slot \<open>i\<close> of the
  backing array, which the \<open>append\<close> shifts in place. The declarations are pointers, and
  \<open>genDecl.Specs = newSpecs\<close> writes through the pointer. The model keeps
  \<^item> \<open>heap\<close>: the declaration objects, addressed by their original index;
  \<^item> \<open>arr\<close>: the backing array, a list of addresses of fixed length;
  \<^item> \<open>len\<close>: the current length of \<open>file.Decls\<close>.
  \<open>file.Decls[i+1:]\<close> panics when \<open>i + 1 > len\<close>; otherwise the \<open>append\<close> copies the
  slots \<open>i+1 .. len-1\<close> one to the left and leaves the slots from \<open>len-1\<close> on as they were.
\<close>

type_synonym declsState = "decl list \<times> nat list \<times> nat"

definition removeStep :: "nat \<Rightarrow> declsState \<Rightarrow> error + declsState" where
  "removeStep i st =
     (case st of (heap, arr, len) \<Rightarrow>
        (case heap ! (arr ! i) of
           GenDecl tok specs \<Rightarrow>
             if tok = T_IMPORT then
               (let newSpecs = filterSpecs specs in
                if newSpecs = [] then
                  (if i < len
                   then Inr (heap, take i arr @ drop (Suc i) (take len arr) @ drop (len - 1) arr,
                             len - 1)
                   else Inl Panic)
                else Inr (heap[arr ! i := GenDecl tok newSpecs], arr, len))
             else Inr st
         | FuncDecl recv name params results body \<Rightarrow> Inr st))"

fun removeLoop :: "nat list \<Rightarrow> declsState \<Rightarrow> error + declsState" where
  "removeLoop [] st = Inr st"
| "removeLoop (i # is) st =
     (case removeStep i st of
        Inl e \<Rightarrow> Inl e
      | Inr st' \<Rightarrow> removeLoop is st')"

definition declsOf :: "declsState \<Rightarrow> decl list" where
  "declsOf st = (case st of (heap, arr, len) \<Rightarrow> map (\<lambda>a. heap ! a) (take len arr))"

definition removeLambdaImport :: "File \<Rightarrow> error + File" where
  "removeLambdaImport f =
     (let n = length (Decls f) in
      case removeLoop [0..<n] (Decls f, [0..<n], n) of
        Inl e \<Rightarrow> Inl e
      | Inr st \<Rightarrow> Inr (f\<lparr>Decls := declsOf st\<rparr>))"

record importInfo =
  path :: string
  aliasName :: string
  hasImport :: bool
  needed :: bool

definition checkImport :: "spec \<Rightarrow> importInfo \<Rightarrow> importInfo" where
  "checkImport importSpec info =
     (case importSpec of
        ImportSpec name pathValue \<Rightarrow>
          if stringsTrim pathValue dquote = path info then
            (case name of
               None \<Rightarrow> info\<lparr>hasImport := True\<rparr>
             | Some a \<Rightarrow> info\<lparr>hasImport := True, aliasName := a\<rparr>)
          else info
      | _ \<Rightarrow> info)"

definition createImportSpec :: "string \<Rightarrow> spec" where
  "createImportSpec p = ImportSpec None (dquote # p @ [dquote])"

text \<open>
  The map \<open>imports\<close> of \<open>addRequiredImports\<close>, as an association list from the key to
  the record the map's pointer refers to.
\<close>

definition requiredImports :: "HandlerSignature \<Rightarrow> (string \<times> importInfo) list" where
  "requiredImports handlerSig =
     [(''context'', \<lparr>path = ''context'', aliasName = ''context'', hasImport = False, needed = True\<rparr>),
      (''net/http'', \<lparr>path = ''net/http'', aliasName = ''http'', hasImport = False, needed = True\<rparr>),
      (''io'', \<lparr>path = ''io'', aliasName = ''io'', hasImport = False,
               needed = HasInput handlerSig\<rparr>),
      (''encoding/json'', \<lparr>path = ''encoding/json'', aliasName = ''json'', hasImport = False,
               needed = HasOutput handlerSig\<rparr>),
      (''log'', \<lparr>path = ''log'', aliasName = ''log'', hasImport = False,
               needed = HasError handlerSig\<rparr>)]"

text \<open>
  The first loop nest: every import spec of every import declaration is checked against
  every entry of the map. The entries are updated independently of each other, so the
  order in which the innermost \<open>range imports\<close> visits them does not show.
\<close>

definition checkSpec :: "(string \<times> importInfo) list \<Rightarrow> spec \<Rightarrow> (string \<times> importInfo) list" where
  "checkSpec imports sp =
     (case sp of
        ImportSpec name pathValue \<Rightarrow> map (\<lambda>(k, info). (k, checkImport sp info)) imports
      | _ \<Rightarrow> imports)"

definition checkDecl :: "(string \<times> importInfo) list \<Rightarrow> decl \<Rightarrow> (string \<times> importInfo) list" where
  "checkDecl imports d =
     (case d of
        GenDecl tok specs \<Rightarrow> if tok = T_IMPORT then foldl checkSpec imports specs else imports
      | _ \<Rightarrow> imports)"

text \<open>
  Go leaves the iteration order of \<open>range\<close> over a map unspecified, and the runtime
  varies it from one loop to the next. Each of the two order-sensitive loops therefore
  takes the order of its run as a parameter: a list of the map's keys. \<open>rangeOver\<close>
  yields the entries in that order.
\<close>

definition rangeOver :: "string list \<Rightarrow> (string \<times> importInfo) list \<Rightarrow> importInfo list" where
  "rangeOver order imports = List.map_filter (map_of imports) order"

definition isKeyOrder :: "string list \<Rightarrow> bool" where
  "isKeyOrder order =
     (distinct order \<and> set order = {''context'', ''net/http'', ''io'', ''encoding/json'', ''log''})"

definition aliasOf :: "(string \<times> importInfo) list \<Rightarrow> string \<Rightarrow> string" where
  "aliasOf imports k = (case map_of imports k of Some info \<Rightarrow> aliasName info | None \<Rightarrow> [])"

text \<open>
  Appending the missing imports to the first import declaration; \<open>None\<close> when the file
  has no import declaration.
\<close>

fun appendToFirstImport :: "spec list \<Rightarrow> decl list \<Rightarrow> decl list option" where
  "appendToFirstImport new [] = None"
| "appendToFirstImport new (GenDecl tok specs # ds) =
     (if tok = T_IMPORT then Some (GenDecl tok (specs @ new) # ds)
      else map_option (\<lambda>r. GenDecl tok specs # r) (appendToFirstImport new ds))"
| "appendToFirstImport new (FuncDecl recv name params results body # ds) =
     map_option (\<lambda>r. FuncDecl recv name params results body # r) (appendToFirstImport new ds)"

definition addRequiredImports ::
  "string list \<Rightarrow> string list \<Rightarrow> File \<Rightarrow> HandlerSignature \<Rightarrow> File \<times> string \<times> string \<times> string" where
  "addRequiredImports orderMissing orderSpecs f handlerSig =
     (let imports = foldl checkDecl (requiredImports handlerSig) (Decls f);
          missingImports =
            map path (filter (\<lambda>info. needed info \<and> \<not> hasImport info)
                        (rangeOver orderMissing imports));
          aliases = (aliasOf imports ''context'', aliasOf imports ''net/http'', aliasOf imports ''io'')
      in if missingImports \<noteq> [] then
           (case appendToFirstImport (map createImportSpec missingImports) (Decls f) of
              Some ds \<Rightarrow> (f\<lparr>Decls := ds\<rparr>, aliases)
            | None \<Rightarrow>
                (let specs = map (\<lambda>info. createImportSpec (path info))
                               (filter needed (rangeOver orderSpecs imports))
                 in (f\<lparr>Decls := GenDecl T_IMPORT specs # Decls f\<rparr>, aliases)))
         else (f, aliases))"

section \<open>transformAST\<close>

fun isMain :: "decl \<Rightarrow> bool" where
  "isMain (FuncDecl recv name params results body) = (name = ''main'')"
| "isMain (GenDecl tok specs) = False"

text \<open>The index at which the loop of \<open>transformAST\<close> stops.\<close>

fun mainIndex :: "decl list \<Rightarrow> nat option" where
  "mainIndex [] = None"
| "mainIndex (d # ds) = (if isMain d then Some 0 else map_option Suc (mainIndex ds))"

definition transformAST ::
  "string list \<Rightarrow> string list \<Rightarrow> File \<Rightarrow> string \<Rightarrow> HandlerSignature \<Rightarrow> error + File" where
  "transformAST orderMissing orderSpecs f handlerFuncName handlerSig =
     (case removeLambdaImport f of
        Inl e \<Rightarrow> Inl e
      | Inr f1 \<Rightarrow>
          (case addRequiredImports orderMissing orderSpecs f1 handlerSig of
             (f2, contextAlias, httpAlias, ioAlias) \<Rightarrow>
               (case mainIndex (Decls f2) of
                  None \<Rightarrow> Inr f2
                | Some i \<Rightarrow>
                    Inr (f2\<lparr>Decls :=
                           take i (Decls f2) @
                           [createHandlerStruct, createNewFunc,
                            createHandleMethod handlerFuncName contextAlias httpAlias ioAlias
                              handlerSig] @
                           drop (i + 1) (Decls f2)\<rparr>))))"

section \<open>analyzeHandlerSignatureWithTypes\<close>

text \<open>
  The part of go/types the second classifier reads. \<open>Named pkg name\<close> is a
  \<open>*types.Named\<close> whose object has the name \<open>name\<close> and is declared in the package with
  import path \<open>pkg\<close>; \<open>pkg\<close> is \<open>None\<close> when \<open>Obj().Pkg()\<close> is nil, as it is for the
  predeclared \<open>error\<close>. The other constructors are types that are not \<open>*types.Named\<close>.
  A \<open>*types.Tuple\<close> is the list of the types of its variables.
\<close>

datatype gotype =
    Named "string option" string
  | Basic string
  | Slice gotype
  | Pointer gotype
  | MapType gotype gotype

text \<open>\<open>Type.String()\<close>: a named type prints as its name, qualified by the package path.\<close>

fun typeString :: "gotype \<Rightarrow> string" where
  "typeString (Named None name) = name"
| "typeString (Named (Some pkg) name) = pkg @ ''.'' @ name"
| "typeString (Basic name) = name"
| "typeString (Slice t) = ''[]'' @ typeString t"
| "typeString (Pointer t) = ''*'' @ typeString t"
| "typeString (MapType k v) = ''map['' @ typeString k @ '']'' @ typeString v"

text \<open>
  \<open>FuncObj params results\<close> is a \<open>*types.Func\<close> with that signature; \<open>OtherObj\<close> is any
  other object. The lookup below only ever yields a \<open>*types.Func\<close>, whose \<open>Type()\<close> is a
  \<open>*types.Signature\<close>, so the "handler is not a function" return is never taken.
\<close>

datatype object =
    FuncObj "gotype list" "gotype list"
  | OtherObj

text \<open>
  What \<open>packages.Load\<close> hands back for the first package: \<open>Defs\<close> and \<open>Uses\<close> of its
  \<open>TypesInfo\<close>, each as the list of (identifier name, object) pairs in the order in which
  the \<open>range\<close> over the map visits them in this run.
\<close>

record typesInfo =
  Defs :: "(string \<times> object) list"
  Uses :: "(string \<times> object) list"

record package =
  Errors :: "string list"
  TypesInfo :: "typesInfo option"

fun isFuncObj :: "object \<Rightarrow> bool" where
  "isFuncObj (FuncObj params results) = True"
| "isFuncObj OtherObj = False"

definition lookupFunc :: "string \<Rightarrow> (string \<times> object) list \<Rightarrow> object option" where
  "lookupFunc handlerName entries =
     (case filter (\<lambda>(name, obj). name = handlerName \<and> isFuncObj obj) entries of
        [] \<Rightarrow> None
      | (name, obj) # _ \<Rightarrow> Some obj)"

definition analyzeTypeParams :: "gotype list \<Rightarrow> HandlerSignature \<Rightarrow> HandlerSignature" where
  "analyzeTypeParams params sig =
     (case params of
        [] \<Rightarrow> sig
      | firstParam # rest \<Rightarrow>
          (case firstParam of
             Named pkg name \<Rightarrow>
               if pkg \<noteq> None \<and> pkg = Some ''context'' \<and> name = ''Context''
               then (let sig1 = sig\<lparr>HasContext := True\<rparr>
                     in if length params = 2 then sig1\<lparr>HasInput := True\<rparr> else sig1)
               else sig
           | _ \<Rightarrow> if length params = 1 then sig\<lparr>HasInput := True\<rparr> else sig))"

definition analyzeTypeResults :: "gotype list \<Rightarrow> HandlerSignature \<Rightarrow> HandlerSignature" where
  "analyzeTypeResults results sig =
     (case results of
        [] \<Rightarrow> sig
      | r # rest \<Rightarrow>
          if length results = 1 then
            (if typeString r = ''error'' then sig\<lparr>HasError := True\<rparr> else sig)
          else if length results = 2 then sig\<lparr>HasOutput := True, HasError := True\<rparr>
          else sig)"

text \<open>
  The argument \<open>loaded\<close> is the outcome of \<open>filepath.Abs\<close> and \<open>packages.Load\<close>: an error,
  or the list of packages.
\<close>

definition analyzeHandlerSignatureWithTypes ::
  "error + package list \<Rightarrow> string \<Rightarrow> error + HandlerSignature" where
  "analyzeHandlerSignatureWithTypes loaded handlerName =
     (case loaded of
        Inl e \<Rightarrow> Inl TypeLoadFailed
      | Inr pkgs \<Rightarrow>
          (case pkgs of
             [] \<Rightarrow> Inl TypeLoadFailed
           | pkg # _ \<Rightarrow>
               (let handlerObj =
                      (case TypesInfo pkg of
                         None \<Rightarrow> None
                       | Some info \<Rightarrow>
                           (case lookupFunc handlerName (Defs info) of
                              Some obj \<Rightarrow> Some obj
                            | None \<Rightarrow> lookupFunc handlerName (Uses info)))
                in case handlerObj of
                     None \<Rightarrow> Inl HandlerNotFound
                   | Some OtherObj \<Rightarrow> Inl NotAFunction
                   | Some (FuncObj params results) \<Rightarrow>
                       Inr (analyzeTypeResults results (analyzeTypeParams params emptySignature)))))"

section \<open>The run, from the parsed file to the tree handed to the printer\<close>

definition migrate ::
  "string list \<Rightarrow> string list \<Rightarrow> (error + package list) \<Rightarrow> File \<Rightarrow> error + File" where
  "migrate orderMissing orderSpecs loaded f =
     (case findLambdaHandler f of
        Inl e \<Rightarrow> Inl e
      | Inr handlerRef \<Rightarrow>
          (case analyzeHandlerSignature f (SimpleName handlerRef) of
             Inr handlerSig \<Rightarrow>
               transformAST orderMissing orderSpecs f (QualifiedName handlerRef) handlerSig
           | Inl e \<Rightarrow>
               (case analyzeHandlerSignatureWithTypes loaded (SimpleName handlerRef) of
                  Inl e' \<Rightarrow> Inl e'
                | Inr handlerSig \<Rightarrow>
                    transformAST orderMissing orderSpecs f (QualifiedName handlerRef)
                      handlerSig)))"

section \<open>The nine handler shapes and the recipe of the dispatch method\<close>

text \<open>
  The shapes the tool supports, in the order of its documentation: \<open>func ()\<close>,
  \<open>func () error\<close>, \<open>func () (TOut, error)\<close>, \<open>func (TIn) error\<close>,
  \<open>func (TIn) (TOut, error)\<close>, \<open>func (context.Context) error\<close>,
  \<open>func (context.Context) (TOut, error)\<close>, \<open>func (context.Context, TIn) error\<close>,
  \<open>func (context.Context, TIn) (TOut, error)\<close>.

  The definitions \<open>recipe...\<close> spell out the recipe of the specification for the body of
  the dispatch method, step by step: read the body iff \<open>hasInput\<close>; arguments \<open>ctx\<close> iff
  \<open>hasContext\<close>, then \<open>body\<close> iff \<open>hasInput\<close>; the call, bound as the pair
  \<open>(hasOutput, hasError)\<close> says; the error guard iff \<open>hasError\<close>; the encoding iff
  \<open>hasOutput\<close>. They are the specification's side of the comparison with
  \<open>createHandleMethod\<close>.
\<close>

definition canonicalShapes :: "HandlerSignature list" where
  "canonicalShapes =
     [\<lparr>HasContext = False, HasInput = False, HasOutput = False, HasError = False\<rparr>,
      \<lparr>HasContext = False, HasInput = False, HasOutput = False, HasError = True\<rparr>,
      \<lparr>HasContext = False, HasInput = False, HasOutput = True, HasError = True\<rparr>,
      \<lparr>HasContext = False, HasInput = True, HasOutput = False, HasError = True\<rparr>,
      \<lparr>HasContext = False, HasInput = True, HasOutput = True, HasError = True\<rparr>,
      \<lparr>HasContext = True, HasInput = False, HasOutput = False, HasError = True\<rparr>,
      \<lparr>HasContext = True, HasInput = False, HasOutput = True, HasError = True\<rparr>,
      \<lparr>HasContext = True, HasInput = True, HasOutput = False, HasError = True\<rparr>,
      \<lparr>HasContext = True, HasInput = True, HasOutput = True, HasError = True\<rparr>]"

definition recipeRead :: "string \<Rightarrow> stmt" where
  "recipeRead ioAlias =
     AssignStmt [Ident ''body'', Ident ''_''] T_DEFINE
       [CallExpr (SelectorExpr (Ident ioAlias) ''ReadAll'') [SelectorExpr (Ident ''r'') ''Body'']]"

definition recipeArgs :: "HandlerSignature \<Rightarrow> expr list" where
  "recipeArgs sig =
     (if HasContext sig then [Ident ''ctx''] else []) @
     (if HasInput sig then [Ident ''body''] else [])"

definition recipeCall :: "expr \<Rightarrow> HandlerSignature \<Rightarrow> stmt" where
  "recipeCall callee sig =
     (case (HasOutput sig, HasError sig) of
        (True, True) \<Rightarrow>
          AssignStmt [Ident ''result'', Ident ''err''] T_DEFINE [CallExpr callee (recipeArgs sig)]
      | (False, True) \<Rightarrow>
          AssignStmt [Ident ''err''] T_DEFINE [CallExpr callee (recipeArgs sig)]
      | (True, False) \<Rightarrow>
          AssignStmt [Ident ''result''] T_DEFINE [CallExpr callee (recipeArgs sig)]
      | (False, False) \<Rightarrow> ExprStmt (CallExpr callee (recipeArgs sig)))"

definition recipeGuard :: stmt where
  "recipeGuard =
     IfStmt (BinaryExpr (Ident ''err'') T_NEQ (Ident ''nil''))
       [ExprStmt (CallExpr (SelectorExpr (Ident ''log'') ''Printf'')
          [BasicLit T_STRING (dquote # ''Handler error: %v'' @ [dquote]), Ident ''err'']),
        ExprStmt (CallExpr (SelectorExpr (Ident ''w'') ''WriteHeader'') [BasicLit T_INT ''500'']),
        ReturnStmt []]
       []"

definition recipeEncode :: stmt where
  "recipeEncode =
     ExprStmt (CallExpr
       (SelectorExpr (CallExpr (SelectorExpr (Ident ''json'') ''NewEncoder'') [Ident ''w''])
          ''Encode'')
       [Ident ''result''])"

definition recipeBody :: "expr \<Rightarrow> string \<Rightarrow> HandlerSignature \<Rightarrow> stmt list" where
  "recipeBody callee ioAlias sig =
     (if HasInput sig then [recipeRead ioAlias] else []) @
     [recipeCall callee sig] @
     (if HasError sig then [recipeGuard] else []) @
     (if HasOutput sig then [recipeEncode] else [])"

fun bodyOf :: "decl \<Rightarrow> stmt list option" where
  "bodyOf (FuncDecl recv name params results body) = body"
| "bodyOf (GenDecl tok specs) = None"

section \<open>Start calls in the entry function\<close>

text \<open>
  The references of all supported start calls that occur anywhere in an expression or a
  statement (the whole tree, nothing pruned), in source order, and those of the bodies of
  all functions named \<open>main\<close>. \<open>picks rs r r'\<close> says that a pass which started with
  \<open>handlerRef = r\<close> ended with \<open>r'\<close>: unchanged when there is no supported start call,
  and the reference of one of them otherwise.
\<close>

fun refsExpr :: "expr \<Rightarrow> HandlerReference list"
  and refsExprs :: "expr list \<Rightarrow> HandlerReference list"
  and refsStmt :: "stmt \<Rightarrow> HandlerReference list"
  and refsStmts :: "stmt list \<Rightarrow> HandlerReference list"
  and refsField :: "field \<Rightarrow> HandlerReference list"
  and refsFields :: "field list \<Rightarrow> HandlerReference list"
where
  "refsExpr (Ident n) = []"
| "refsExpr (BasicLit k v) = []"
| "refsExpr (SelectorExpr x sel) = refsExpr x"
| "refsExpr (CallExpr fn args) =
     (case startCallHandler fn args of Some h \<Rightarrow> [h] | None \<Rightarrow> []) @
     refsExpr fn @ refsExprs args"
| "refsExpr (StarExpr x) = refsExpr x"
| "refsExpr (UnaryExpr op x) = refsExpr x"
| "refsExpr (BinaryExpr x op y) = refsExpr x @ refsExpr y"
| "refsExpr (CompositeLit ty elts) = refsExpr ty @ refsExprs elts"
| "refsExpr (ArrayType elt) = refsExpr elt"
| "refsExpr (StructType flds) = refsFields flds"
| "refsExpr (FuncLit params results body) =
     refsFields params @ refsFields results @ refsStmts body"
| "refsExprs [] = []"
| "refsExprs (e # es) = refsExpr e @ refsExprs es"
| "refsStmt (ExprStmt x) = refsExpr x"
| "refsStmt (AssignStmt lhs tok rhs) = refsExprs lhs @ refsExprs rhs"
| "refsStmt (IfStmt cond body els) = refsExpr cond @ refsStmts body @ refsStmts els"
| "refsStmt (ReturnStmt results) = refsExprs results"
| "refsStmt (BlockStmt ss) = refsStmts ss"
| "refsStmt (DeferStmt call) = refsExpr call"
| "refsStmts [] = []"
| "refsStmts (s # ss) = refsStmt s @ refsStmts ss"
| "refsField (Field names ty) = refsExpr ty"
| "refsFields [] = []"
| "refsFields (f # fs) = refsField f @ refsFields fs"

fun mainRefs :: "decl list \<Rightarrow> HandlerReference list" where
  "mainRefs [] = []"
| "mainRefs (GenDecl tok specs # ds) = mainRefs ds"
| "mainRefs (FuncDecl recv name params results body # ds) =
     (if name = ''main''
      then (case body of None \<Rightarrow> [] | Some b \<Rightarrow> refsStmts b) @ mainRefs ds
      else mainRefs ds)"

fun bodilessMain :: "decl \<Rightarrow> bool" where
  "bodilessMain (FuncDecl recv name params results body) = (name = ''main'' \<and> body = None)"
| "bodilessMain (GenDecl tok specs) = False"

definition picks :: "HandlerReference list \<Rightarrow> HandlerReference option \<Rightarrow> HandlerReference option \<Rightarrow> bool" where
  "picks rs r r' = ((rs = [] \<and> r' = r) \<or> (\<exists>h \<in> set rs. r' = Some h))"

definition lambdaStart :: expr where
  "lambdaStart = SelectorExpr (Ident ''lambda'') ''Start''"

section \<open>The declarations the import rewriter leaves alone\<close>

text \<open>
  \<open>otherDecls\<close> are the declarations that are not import declarations. \<open>removeInv\<close> is
  the loop invariant of \<open>removeLambdaImport\<close> for a file whose last declaration is not an
  import declaration: the last live slot and all slots behind it hold the address of that
  last declaration, the object at that address is still not an import declaration, and
  the live part of the array shows the original non-import declarations in their order.
\<close>

fun isImportDecl :: "decl \<Rightarrow> bool" where
  "isImportDecl (GenDecl tok specs) = (tok = T_IMPORT)"
| "isImportDecl (FuncDecl recv name params results body) = False"

definition otherDecls :: "decl list \<Rightarrow> decl list" where
  "otherDecls ds = filter (\<lambda>d. \<not> isImportDecl d) ds"


section \<open>Observers\<close>

text \<open>
  \<open>declaresFunc n d\<close>: \<open>d\<close> is a function declaration named \<open>n\<close>. \<open>firstSpecs\<close> reads the
  specs of the first declaration of a successful run's output, where the import
  declaration of the examples stands.
\<close>

fun declaresFunc :: "string \<Rightarrow> decl \<Rightarrow> bool" where
  "declaresFunc n (FuncDecl recv name params results body) = (name = n)"
| "declaresFunc n (GenDecl tok specs) = False"

definition firstSpecs :: "error + File \<Rightarrow> spec list" where
  "firstSpecs r =
     (case r of
        Inl e \<Rightarrow> []
      | Inr f \<Rightarrow> (case Decls f of GenDecl tok specs # ds \<Rightarrow> specs | _ \<Rightarrow> []))"

section \<open>Concrete files\<close>

definition startMain :: "expr list \<Rightarrow> decl" where
  "startMain args =
     FuncDecl [] ''main'' [] []
       (Some [ExprStmt (CallExpr (SelectorExpr (Ident ''lambda'') ''Start'') args)])"

definition lambdaImport :: spec where
  "lambdaImport = createImportSpec ''github.com/aws/aws-lambda-go/lambda''"

definition qualifiedInputFile :: File where
  "qualifiedInputFile =
     \<lparr>Name = ''main'',
      Decls =
        [GenDecl T_IMPORT [createImportSpec ''encoding/json'', lambdaImport],
         FuncDecl [] ''handleRequest''
           [Field [''event''] (SelectorExpr (Ident ''json'') ''RawMessage'')]
           [Field [] (Ident ''error'')]
           (Some [ReturnStmt [Ident ''nil'']]),
         startMain [Ident ''handleRequest'']]\<rparr>"

definition aliasedContextFile :: File where
  "aliasedContextFile =
     \<lparr>Name = ''main'',
      Decls =
        [GenDecl T_IMPORT [ImportSpec (Some ''ctx'') (dquote # ''context'' @ [dquote]), lambdaImport],
         FuncDecl [] ''handleRequest''
           [Field [''c''] (SelectorExpr (Ident ''ctx'') ''Context'')]
           [Field [] (Ident ''error'')]
           (Some [ReturnStmt [Ident ''nil'']]),
         startMain [Ident ''handleRequest'']]\<rparr>"

definition aliasedContextPackage :: package where
  "aliasedContextPackage =
     \<lparr>Errors = [],
      TypesInfo = Some
        \<lparr>Defs = [(''handleRequest'',
                   FuncObj [Named (Some ''context'') ''Context''] [Named None ''error'']),
                 (''main'', FuncObj [] []),
                 (''c'', OtherObj)],
         Uses = [(''handleRequest'',
                   FuncObj [Named (Some ''context'') ''Context''] [Named None ''error'']),
                 (''Start'', FuncObj [Basic ''interface{}''] []),
                 (''Context'', OtherObj), (''error'', OtherObj), (''nil'', OtherObj)]\<rparr>\<rparr>"

definition localTypeFile :: File where
  "localTypeFile =
     \<lparr>Name = ''main'',
      Decls =
        [GenDecl T_IMPORT [lambdaImport],
         GenDecl T_TYPE [TypeSpec ''Request'' (StructType [])],
         FuncDecl [] ''handleRequest''
           [Field [''req''] (Ident ''Request'')]
           [Field [] (Ident ''error'')]
           (Some [ReturnStmt [Ident ''nil'']]),
         startMain [Ident ''handleRequest'']]\<rparr>"

definition localTypePackage :: package where
  "localTypePackage =
     \<lparr>Errors = [],
      TypesInfo = Some
        \<lparr>Defs = [(''Request'', OtherObj),
                 (''handleRequest'',
                   FuncObj [Named (Some ''example.com/fn'') ''Request''] [Named None ''error'']),
                 (''req'', OtherObj),
                 (''main'', FuncObj [] [])],
         Uses = [(''handleRequest'',
                   FuncObj [Named (Some ''example.com/fn'') ''Request''] [Named None ''error'']),
                 (''Start'', FuncObj [Basic ''interface{}''] []),
                 (''Request'', OtherObj), (''error'', OtherObj), (''nil'', OtherObj)]\<rparr>\<rparr>"

definition threeParamFile :: File where
  "threeParamFile =
     \<lparr>Name = ''main'',
      Decls =
        [GenDecl T_IMPORT [lambdaImport],
         FuncDecl [] ''handleRequest''
           [Field [''a''] (Ident ''int''), Field [''b''] (Ident ''string''),
            Field [''c''] (Ident ''bool'')]
           [Field [] (Ident ''int''), Field [] (Ident ''string''), Field [] (Ident ''error'')]
           (Some [ReturnStmt [BasicLit T_INT ''0'', BasicLit T_STRING [dquote, dquote],
                              Ident ''nil'']]),
         startMain [Ident ''handleRequest'']]\<rparr>"

text \<open>
  \<open>declOrder\<close> and \<open>rotatedOrder\<close> are two iteration orders of the map of
  \<open>addRequiredImports\<close>: the order of the map literal, and that order started at its third
  key.
\<close>

definition declOrder :: "string list" where
  "declOrder = [''context'', ''net/http'', ''io'', ''encoding/json'', ''log'']"

definition rotatedOrder :: "string list" where
  "rotatedOrder = [''io'', ''encoding/json'', ''log'', ''context'', ''net/http'']"

definition errorHandler :: decl where
  "errorHandler =
     FuncDecl [] ''handleRequest''
       [Field [''ctx''] (SelectorExpr (Ident ''context'') ''Context'')]
       [Field [] (Ident ''error'')]
       (Some [ReturnStmt [Ident ''nil'']])"

definition plainHandler :: decl where
  "plainHandler =
     FuncDecl [] ''handleRequest'' [] [Field [] (Ident ''error'')]
       (Some [ReturnStmt [Ident ''nil'']])"

definition twoImportDeclsFile :: File where
  "twoImportDeclsFile =
     \<lparr>Name = ''main'',
      Decls =
        [GenDecl T_IMPORT [lambdaImport],
         GenDecl T_IMPORT [createImportSpec ''github.com/aws/aws-lambda-go/lambdacontext''],
         plainHandler,
         startMain [Ident ''handleRequest'']]\<rparr>"

definition aliasedLogFile :: File where
  "aliasedLogFile =
     \<lparr>Name = ''main'',
      Decls =
        [GenDecl T_IMPORT
           [createImportSpec ''context'',
            ImportSpec (Some ''stdlog'') (dquote # ''log'' @ [dquote]),
            lambdaImport],
         errorHandler,
         startMain [Ident ''handleRequest'']]\<rparr>"

definition fullHandlerFile :: File where
  "fullHandlerFile =
     \<lparr>Name = ''main'',
      Decls =
        [GenDecl T_IMPORT
           [createImportSpec ''context'', createImportSpec ''encoding/json'', lambdaImport],
         FuncDecl [] ''handleRequest''
           [Field [''ctx''] (SelectorExpr (Ident ''context'') ''Context''),
            Field [''event''] (ArrayType (Ident ''byte''))]
           [Field [] (SelectorExpr (Ident ''json'') ''RawMessage''), Field [] (Ident ''error'')]
           (Some [ReturnStmt [Ident ''nil'', Ident ''nil'']]),
         startMain [Ident ''handleRequest'']]\<rparr>"

definition literalArgFile :: File where
  "literalArgFile =
     \<lparr>Name = ''main'',
      Decls = [GenDecl T_IMPORT [lambdaImport], plainHandler,
               startMain [BasicLit T_STRING (dquote # ''handleRequest'' @ [dquote])]]\<rparr>"

definition qualifiedHandlerFile :: File where
  "qualifiedHandlerFile =
     \<lparr>Name = ''main'',
      Decls = [GenDecl T_IMPORT [lambdaImport, createImportSpec ''example.com/app/handler''],
               startMain [SelectorExpr (Ident ''handler'') ''HandleRequest'']]\<rparr>"

definition zeroArgFile :: File where
  "zeroArgFile =
     \<lparr>Name = ''main'',
      Decls = [GenDecl T_IMPORT [lambdaImport], plainHandler, startMain []]\<rparr>"

definition importsOnlyFile :: File where
  "importsOnlyFile =
     \<lparr>Name = ''main'',
      Decls =
        [GenDecl T_IMPORT [lambdaImport],
         GenDecl T_IMPORT [createImportSpec ''github.com/aws/aws-lambda-go/lambdacontext'']]\<rparr>"

section \<open>Properties of the adapter synthesizer\<close>

lemma stringsIndex_absent: "c \<notin> set s \<Longrightarrow> stringsIndex s c = None"
  by (induction s) auto

lemma stringsIndex_first: "c \<notin> set p \<Longrightarrow> stringsIndex (p @ c # r) c = Some (length p)"
  by (induction p) auto

lemma createHandleMethod_body:
  "bodyOf (createHandleMethod n ca ha ia sig) =
     Some (recipeBody
       (case stringsIndex n CHR ''.'' of
          Some idx \<Rightarrow> SelectorExpr (Ident (take idx n)) (drop (idx + 1) n)
        | None \<Rightarrow> Ident n) ia sig)"
  by (simp add: createHandleMethod_def recipeBody_def recipeCall_def recipeGuard_def
      recipeEncode_def recipeRead_def recipeArgs_def dquote_def Let_def)

text \<open>
  Claim C1. For each of the nine canonical shapes the body of the dispatch method that
  \<open>createHandleMethod\<close> builds is the recipe: the read of the request body first iff
  \<open>HasInput\<close> (its error bound to the blank identifier), then the handler call with the
  arguments \<open>ctx\<close> iff \<open>HasContext\<close> followed by \<open>body\<close> iff \<open>HasInput\<close>, bound to
  \<open>result, err\<close>, to \<open>err\<close>, to \<open>result\<close> or not at all, then the error guard (log, status
  500, return) iff \<open>HasError\<close>, and the JSON encoding last iff \<open>HasOutput\<close>. The handler
  is called through the bare identifier when its name has no dot, and through the
  selector \<open>pkg.fn\<close> when the name is \<open>pkg\<close>, a dot, and \<open>fn\<close>.
\<close>

theorem createHandleMethod_recipe:
  assumes "sig \<in> set canonicalShapes"
  shows "(CHR ''.'' \<notin> set n \<longrightarrow>
           bodyOf (createHandleMethod n ca ha ia sig) = Some (recipeBody (Ident n) ia sig)) \<and>
         (CHR ''.'' \<notin> set pkg \<longrightarrow>
           bodyOf (createHandleMethod (pkg @ ''.'' @ fn) ca ha ia sig) =
             Some (recipeBody (SelectorExpr (Ident pkg) fn) ia sig))"
  by (simp add: createHandleMethod_body stringsIndex_absent stringsIndex_first)

theorem createHandleMethod_recipe_witness:
  "\<lparr>HasContext = True, HasInput = True, HasOutput = True, HasError = True\<rparr>
     \<in> set canonicalShapes \<and>
   CHR ''.'' \<notin> set ''handleRequest'' \<and>
   bodyOf (createHandleMethod ''handleRequest'' ''context'' ''http'' ''io''
       \<lparr>HasContext = True, HasInput = True, HasOutput = True, HasError = True\<rparr>) =
     Some [AssignStmt [Ident ''body'', Ident ''_''] T_DEFINE
             [CallExpr (SelectorExpr (Ident ''io'') ''ReadAll'')
                [SelectorExpr (Ident ''r'') ''Body'']],
           AssignStmt [Ident ''result'', Ident ''err''] T_DEFINE
             [CallExpr (Ident ''handleRequest'') [Ident ''ctx'', Ident ''body'']],
           IfStmt (BinaryExpr (Ident ''err'') T_NEQ (Ident ''nil''))
             [ExprStmt (CallExpr (SelectorExpr (Ident ''log'') ''Printf'')
                [BasicLit T_STRING (dquote # ''Handler error: %v'' @ [dquote]), Ident ''err'']),
              ExprStmt (CallExpr (SelectorExpr (Ident ''w'') ''WriteHeader'')
                [BasicLit T_INT ''500'']),
              ReturnStmt []]
             [],
           ExprStmt (CallExpr
             (SelectorExpr (CallExpr (SelectorExpr (Ident ''json'') ''NewEncoder'') [Ident ''w''])
                ''Encode'')
             [Ident ''result''])] \<and>
   CHR ''.'' \<notin> set ''handler'' \<and>
   bodyOf (createHandleMethod ''handler.HandleRequest'' ''context'' ''http'' ''io''
       \<lparr>HasContext = True, HasInput = True, HasOutput = True, HasError = True\<rparr>) =
     Some [recipeRead ''io'',
           AssignStmt [Ident ''result'', Ident ''err''] T_DEFINE
             [CallExpr (SelectorExpr (Ident ''handler'') ''HandleRequest'')
                [Ident ''ctx'', Ident ''body'']],
           recipeGuard,
           recipeEncode]"
proof -
  have shape: "\<lparr>HasContext = True, HasInput = True, HasOutput = True, HasError = True\<rparr>
      \<in> set canonicalShapes"
    by (simp add: canonicalShapes_def)
  show ?thesis
    using shape
      createHandleMethod_recipe [OF shape, of "''handleRequest''" "''context''" "''http''"
        "''io''" "''handler''" "''HandleRequest''"]
    by (simp add: recipeBody_def recipeCall_def recipeArgs_def recipeRead_def recipeGuard_def
        recipeEncode_def)
qed

section \<open>Properties of the signature classifiers\<close>

lemmas example_defs = startMain_def lambdaImport_def createImportSpec_def dquote_def
lemmas classify_defs = analyzeHandlerSignature_def signatureOf_def analyzeParams_def
  analyzeResults_def emptySignature_def
lemmas classify_types_defs = analyzeHandlerSignatureWithTypes_def lookupFunc_def
  analyzeTypeParams_def analyzeTypeResults_def emptySignature_def

text \<open>
  Claim C2. The claim is that a handler of a canonical shape is classified as that
  shape; in particular a single parameter that is not \<open>context.Context\<close> gives
  \<open>HasInput\<close>. The handler \<open>func handleRequest(event json.RawMessage) error\<close> has the
  shape \<open>(in) \<rightarrow> error\<close>, and \<open>analyzeHandlerSignature\<close> returns \<open>HasInput = False\<close> for
  it: the parameter's type is a selector expression, so the branch that sets \<open>HasInput\<close>
  is not reached.
\<close>

theorem analyzeHandlerSignature_qualified_input:
  "analyzeHandlerSignature qualifiedInputFile ''handleRequest'' =
     Inr \<lparr>HasContext = False, HasInput = False, HasOutput = False, HasError = True\<rparr>"
  by (simp add: qualifiedInputFile_def classify_defs example_defs)

text \<open>
  Claim C3. The claim is that the two classifiers return the same signature for the same
  declaration. For \<open>func handleRequest(c ctx.Context) error\<close> in a file that imports
  \<open>context\<close> as \<open>ctx\<close>, the syntactic classifier returns \<open>HasContext = False\<close> and the
  type-based one \<open>HasContext = True\<close>; for \<open>func handleRequest(req Request) error\<close> with
  a type \<open>Request\<close> declared in the file, the syntactic classifier returns
  \<open>HasInput = True\<close> and the type-based one \<open>HasInput = False\<close>. The packages are what
  the type checker records for these two files.
\<close>

theorem strategies_disagree:
  "analyzeHandlerSignature aliasedContextFile ''handleRequest'' =
     Inr \<lparr>HasContext = False, HasInput = False, HasOutput = False, HasError = True\<rparr> \<and>
   analyzeHandlerSignatureWithTypes (Inr [aliasedContextPackage]) ''handleRequest'' =
     Inr \<lparr>HasContext = True, HasInput = False, HasOutput = False, HasError = True\<rparr> \<and>
   analyzeHandlerSignature localTypeFile ''handleRequest'' =
     Inr \<lparr>HasContext = False, HasInput = True, HasOutput = False, HasError = True\<rparr> \<and>
   analyzeHandlerSignatureWithTypes (Inr [localTypePackage]) ''handleRequest'' =
     Inr \<lparr>HasContext = False, HasInput = False, HasOutput = False, HasError = True\<rparr>"
  by (simp add: aliasedContextFile_def aliasedContextPackage_def localTypeFile_def
      localTypePackage_def classify_defs classify_types_defs example_defs)

text \<open>
  Claim C4, as stated, fails: a handler with three parameters and three results is not
  one of the nine shapes, and \<open>analyzeHandlerSignature\<close> returns a signature for it (all
  four flags false) instead of failing.
\<close>

theorem analyzeHandlerSignature_three_params:
  "analyzeHandlerSignature threeParamFile ''handleRequest'' =
     Inr \<lparr>HasContext = False, HasInput = False, HasOutput = False, HasError = False\<rparr>"
  by (simp add: threeParamFile_def classify_defs example_defs)

lemma inspectHandler_absent:
  "\<forall>d \<in> set ds. \<not> declaresFunc n d \<Longrightarrow> inspectHandler n ds sig = sig"
  by (induction n ds sig rule: inspectHandler.induct) auto

lemma inspectHandler_append:
  "inspectHandler n (xs @ ys) sig = inspectHandler n ys (inspectHandler n xs sig)"
  by (induction n xs sig rule: inspectHandler.induct) auto

lemma inspectHandler_present:
  "\<exists>d \<in> set ds. declaresFunc n d \<Longrightarrow> \<exists>s. inspectHandler n ds sig = Some s"
proof (induction n ds sig rule: inspectHandler.induct)
  case (3 handlerName recv name params results body ds sig)
  show ?case
  proof (cases "\<exists>d \<in> set ds. declaresFunc handlerName d")
    case True
    with 3 show ?thesis by auto
  next
    case False
    then have "inspectHandler handlerName ds s = s" for s
      by (simp add: inspectHandler_absent)
    with 3 False show ?thesis by auto
  qed
qed auto

text \<open>
  Claim C4, amended. \<open>analyzeHandlerSignature\<close> does not validate the shape. It fails
  exactly when the file declares no function of the given name, with the "not found"
  error and never with \<open>SignatureAnalysisFailed\<close>; whenever such a declaration exists it
  returns a signature, namely the flags that the parameter and result rules compute from
  the last declaration of that name, whatever its shape.
\<close>

theorem analyzeHandlerSignature_total:
  "(analyzeHandlerSignature f n = Inl HandlerNotFound \<longleftrightarrow>
      \<not> (\<exists>d \<in> set (Decls f). declaresFunc n d)) \<and>
   analyzeHandlerSignature f n \<noteq> Inl SignatureAnalysisFailed \<and>
   ((\<exists>d \<in> set (Decls f). declaresFunc n d) \<longrightarrow>
      (\<exists>sig. analyzeHandlerSignature f n = Inr sig)) \<and>
   (Decls f = pre @ [FuncDecl recv n params results body] @ post \<and>
    (\<forall>d \<in> set post. \<not> declaresFunc n d) \<longrightarrow>
      analyzeHandlerSignature f n = Inr (signatureOf params results))"
proof -
  have a: "\<not> (\<exists>d \<in> set (Decls f). declaresFunc n d) \<Longrightarrow>
      analyzeHandlerSignature f n = Inl HandlerNotFound"
    by (simp add: analyzeHandlerSignature_def inspectHandler_absent)
  have b: "\<exists>d \<in> set (Decls f). declaresFunc n d \<Longrightarrow>
      \<exists>sig. analyzeHandlerSignature f n = Inr sig"
    using inspectHandler_present [of "Decls f" n None]
    by (auto simp: analyzeHandlerSignature_def)
  have c: "analyzeHandlerSignature f n \<noteq> Inl SignatureAnalysisFailed"
    by (simp add: analyzeHandlerSignature_def split: option.splits)
  have d: "Decls f = pre @ [FuncDecl recv n params results body] @ post \<Longrightarrow>
      \<forall>d \<in> set post. \<not> declaresFunc n d \<Longrightarrow>
      analyzeHandlerSignature f n = Inr (signatureOf params results)"
    by (simp add: analyzeHandlerSignature_def inspectHandler_append inspectHandler_absent)
  from a b c d show ?thesis by (metis sum.distinct(1))
qed

theorem analyzeHandlerSignature_total_witness:
  "declaresFunc ''handleRequest'' (Decls threeParamFile ! 1) \<and>
   analyzeHandlerSignature threeParamFile ''handleRequest'' \<noteq> Inl HandlerNotFound \<and>
   analyzeHandlerSignature threeParamFile ''handleRequest'' =
     Inr (signatureOf
       [Field [''a''] (Ident ''int''), Field [''b''] (Ident ''string''),
        Field [''c''] (Ident ''bool'')]
       [Field [] (Ident ''int''), Field [] (Ident ''string''), Field [] (Ident ''error'')])"
proof -
  have present: "\<exists>d \<in> set (Decls threeParamFile). declaresFunc ''handleRequest'' d"
    by (simp add: threeParamFile_def example_defs)
  have split: "Decls threeParamFile =
      [GenDecl T_IMPORT [lambdaImport]] @
      [FuncDecl [] ''handleRequest''
         [Field [''a''] (Ident ''int''), Field [''b''] (Ident ''string''),
          Field [''c''] (Ident ''bool'')]
         [Field [] (Ident ''int''), Field [] (Ident ''string''), Field [] (Ident ''error'')]
         (Some [ReturnStmt [BasicLit T_INT ''0'', BasicLit T_STRING [dquote, dquote],
                            Ident ''nil'']])] @
      [startMain [Ident ''handleRequest'']]"
    by (simp add: threeParamFile_def)
  have rest: "\<forall>d \<in> set [startMain [Ident ''handleRequest'']]. \<not> declaresFunc ''handleRequest'' d"
    by (simp add: startMain_def)
  have first: "declaresFunc ''handleRequest'' (Decls threeParamFile ! 1)"
    by (simp add: threeParamFile_def)
  from analyzeHandlerSignature_total [of threeParamFile "''handleRequest''"
      "[GenDecl T_IMPORT [lambdaImport]]" "[]" _ _ _ "[startMain [Ident ''handleRequest'']]"]
    present split rest first
  show ?thesis by blast
qed

section \<open>Properties of the entry-point locator\<close>

lemma picks_nil [simp]: "picks [] r r' = (r' = r)"
  by (simp add: picks_def)

lemma picks_append:
  "picks xs r r1 \<Longrightarrow> picks ys r1 r2 \<Longrightarrow> picks (xs @ ys) r r2"
  by (auto simp: picks_def)

lemma picks_hit: "picks (h # rs) r (Some h)"
  by (simp add: picks_def)

lemma inspect_picks:
  "picks (refsExpr e) r (inspectExpr e r)"
  "picks (refsExprs es) r (inspectExprs es r)"
  "picks (refsStmt s) r (inspectStmt s r)"
  "picks (refsStmts ss) r (inspectStmts ss r)"
  "picks (refsField fld) r (inspectField fld r)"
  "picks (refsFields flds) r (inspectFields flds r)"
proof (induction e r and es r and s r and ss r and fld r and flds r
    rule: inspectExpr_inspectExprs_inspectStmt_inspectStmts_inspectField_inspectFields.induct)
  case (4 fn args r)
  show ?case
  proof (cases "startCallHandler fn args")
    case None
    with 4 show ?thesis by (simp add: picks_append)
  next
    case (Some h)
    then show ?thesis by (simp add: picks_hit)
  qed
qed (simp_all add: picks_append)

lemma inspectStmts_append:
  "inspectStmts (xs @ ys) r = inspectStmts ys (inspectStmts xs r)"
  by (induction xs arbitrary: r) simp_all

lemma inspectMain_append:
  "inspectMain (xs @ ys) st =
     (case inspectMain xs st of Inl e \<Rightarrow> Inl e | Inr st' \<Rightarrow> inspectMain ys st')"
  by (induction xs st rule: inspectMain.induct) (auto split: option.splits)

lemma inspectMain_no_main:
  "\<forall>d \<in> set ds. \<not> isMain d \<Longrightarrow> inspectMain ds st = Inr st"
  by (induction ds st rule: inspectMain.induct) auto

lemma mainRefs_no_main:
  "\<forall>d \<in> set ds. \<not> isMain d \<Longrightarrow> mainRefs ds = []"
  by (induction ds rule: mainRefs.induct) auto

lemma inspectMain_panic:
  "\<exists>d \<in> set ds. bodilessMain d \<Longrightarrow> inspectMain ds st = Inl Panic"
  by (induction ds st rule: inspectMain.induct) (auto split: option.splits)

lemma inspectMain_picks:
  "\<forall>d \<in> set ds. \<not> bodilessMain d \<Longrightarrow>
   \<exists>r'. inspectMain ds (fnd, r) = Inr (fnd \<or> (\<exists>d \<in> set ds. isMain d), r') \<and>
        picks (mainRefs ds) r r'"
proof (induction ds arbitrary: fnd r)
  case Nil
  then show ?case by simp
next
  case (Cons d ds)
  show ?case
  proof (cases d)
    case (GenDecl tok specs)
    with Cons show ?thesis by simp
  next
    case (FuncDecl recv name params results body)
    show ?thesis
    proof (cases "name = ''main''")
      case False
      with Cons FuncDecl show ?thesis by simp
    next
      case True
      with Cons.prems FuncDecl obtain b where b: "body = Some b" by auto
      from Cons.prems have "\<forall>d \<in> set ds. \<not> bodilessMain d" by simp
      from Cons.IH [OF this, of True "inspectStmts b r"]
      obtain r' where r': "inspectMain ds (True, inspectStmts b r) = Inr (True, r')"
        "picks (mainRefs ds) (inspectStmts b r) r'" by auto
      have "picks (refsStmts b @ mainRefs ds) r r'"
        using inspect_picks(4) [of b r] r'(2) by (rule picks_append)
      with r' True b FuncDecl show ?thesis by simp
    qed
  qed
qed

lemma bodiless_is_main: "bodilessMain d \<Longrightarrow> isMain d"
  by (cases d) auto

lemma startCallHandler_some:
  "startCallHandler fn args = Some h \<longleftrightarrow>
     fn = lambdaStart \<and>
     (\<exists>a rest. args = a # rest \<and>
        ((\<exists>n. a = Ident n \<and> h = \<lparr>SimpleName = n, QualifiedName = n\<rparr>) \<or>
         (\<exists>p s. a = SelectorExpr (Ident p) s \<and>
                h = \<lparr>SimpleName = s, QualifiedName = p @ ''.'' @ s\<rparr>)))"
  by (auto simp: startCallHandler_def lambdaStart_def split: expr.splits list.splits if_splits)

text \<open>
  Claim C5, amended. \<open>findLambdaHandler\<close> fails with \<open>EntryNotFound\<close> exactly when the
  file has no function declaration named \<open>main\<close>. It never fails with
  \<open>UnsupportedHandlerExpression\<close>: a \<open>lambda.Start\<close> call whose first argument is neither
  a bare identifier nor a selector on an identifier counts as no start call. When every
  \<open>main\<close> has a body, it fails with \<open>StartCallNotFound\<close> exactly when \<open>main\<close> exists and
  its body holds no \<open>lambda.Start\<close> call with such a first argument, and otherwise it
  succeeds with the reference of one of those calls. A reference is produced only by a
  call of \<open>lambda.Start\<close> with at least one argument, and it is \<open>(n, n)\<close> for the bare
  identifier \<open>n\<close> and \<open>(s, p.s)\<close> for the selector \<open>p.s\<close>.
\<close>

theorem findLambdaHandler_outcomes:
  "(findLambdaHandler f = Inl EntryNotFound \<longleftrightarrow> \<not> (\<exists>d \<in> set (Decls f). isMain d)) \<and>
   findLambdaHandler f \<noteq> Inl UnsupportedHandlerExpression \<and>
   ((\<forall>d \<in> set (Decls f). \<not> bodilessMain d) \<longrightarrow>
      (findLambdaHandler f = Inl StartCallNotFound \<longleftrightarrow>
         (\<exists>d \<in> set (Decls f). isMain d) \<and> mainRefs (Decls f) = []) \<and>
      ((\<exists>d \<in> set (Decls f). isMain d) \<and> mainRefs (Decls f) \<noteq> [] \<longrightarrow>
         (\<exists>h \<in> set (mainRefs (Decls f)). findLambdaHandler f = Inr h))) \<and>
   (startCallHandler fn args = Some h \<longleftrightarrow>
      fn = lambdaStart \<and>
      (\<exists>a rest. args = a # rest \<and>
         ((\<exists>n. a = Ident n \<and> h = \<lparr>SimpleName = n, QualifiedName = n\<rparr>) \<or>
          (\<exists>p s. a = SelectorExpr (Ident p) s \<and>
                 h = \<lparr>SimpleName = s, QualifiedName = p @ ''.'' @ s\<rparr>))))"
proof -
  note shapes = startCallHandler_some [of fn args h]
  show ?thesis
  proof (cases "\<exists>d \<in> set (Decls f). bodilessMain d")
    case True
    then have "findLambdaHandler f = Inl Panic"
      by (simp add: findLambdaHandler_def inspectMain_panic)
    moreover from True have "\<exists>d \<in> set (Decls f). isMain d"
      using bodiless_is_main by blast
    ultimately show ?thesis using True shapes by simp
  next
    case False
    then have nb: "\<forall>d \<in> set (Decls f). \<not> bodilessMain d" by simp
    from inspectMain_picks [OF nb, of False None]
    obtain r' where r': "inspectMain (Decls f) (False, None) =
        Inr (\<exists>d \<in> set (Decls f). isMain d, r')"
      "picks (mainRefs (Decls f)) None r'" by auto
    show ?thesis
    proof (cases "\<exists>d \<in> set (Decls f). isMain d")
      case False
      with r' shapes show ?thesis
        by (simp add: findLambdaHandler_def)
    next
      case True
      show ?thesis
      proof (cases "mainRefs (Decls f) = []")
        case e: True
        with r'(2) have "r' = None" by simp
        with r'(1) True e shapes show ?thesis
          by (simp add: findLambdaHandler_def)
      next
        case ne: False
        with r'(2) obtain h' where h': "h' \<in> set (mainRefs (Decls f))" "r' = Some h'"
          by (auto simp: picks_def)
        with r'(1) True have "findLambdaHandler f = Inr h'"
          by (simp add: findLambdaHandler_def)
        with h' True ne shapes show ?thesis by auto
      qed
    qed
  qed
qed

text \<open>
  Claim C5, as stated, fails: for \<open>lambda.Start("handleRequest")\<close>, whose only argument
  is a string literal, the claim asks for \<open>UnsupportedHandlerExpression\<close>, and
  \<open>findLambdaHandler\<close> returns \<open>StartCallNotFound\<close>.
\<close>

theorem findLambdaHandler_literal_argument:
  "findLambdaHandler literalArgFile = Inl StartCallNotFound"
  by code_simp

theorem findLambdaHandler_outcomes_witness:
  "\<not> bodilessMain (Decls qualifiedHandlerFile ! 0) \<and>
   \<not> bodilessMain (Decls qualifiedHandlerFile ! 1) \<and>
   isMain (Decls qualifiedHandlerFile ! 1) \<and>
   mainRefs (Decls qualifiedHandlerFile) =
     [\<lparr>SimpleName = ''HandleRequest'', QualifiedName = ''handler.HandleRequest''\<rparr>] \<and>
   findLambdaHandler qualifiedHandlerFile =
     Inr \<lparr>SimpleName = ''HandleRequest'', QualifiedName = ''handler.HandleRequest''\<rparr> \<and>
   findLambdaHandler qualifiedHandlerFile \<noteq> Inl StartCallNotFound \<and>
   findLambdaHandler qualifiedHandlerFile \<noteq> Inl EntryNotFound"
proof -
  have d: "Decls qualifiedHandlerFile =
      [GenDecl T_IMPORT [lambdaImport, createImportSpec ''example.com/app/handler''],
       startMain [SelectorExpr (Ident ''handler'') ''HandleRequest'']]"
    by (simp add: qualifiedHandlerFile_def)
  have nb: "\<forall>d \<in> set (Decls qualifiedHandlerFile). \<not> bodilessMain d"
    by (simp add: d startMain_def)
  have m: "\<exists>d \<in> set (Decls qualifiedHandlerFile). isMain d"
    by (simp add: d startMain_def)
  have r: "mainRefs (Decls qualifiedHandlerFile) =
      [\<lparr>SimpleName = ''HandleRequest'', QualifiedName = ''handler.HandleRequest''\<rparr>]"
    by (simp add: d startMain_def startCallHandler_def)
  from findLambdaHandler_outcomes [where f = qualifiedHandlerFile] nb m r
  have "findLambdaHandler qualifiedHandlerFile =
      Inr \<lparr>SimpleName = ''HandleRequest'', QualifiedName = ''handler.HandleRequest''\<rparr>"
    by simp
  with r show ?thesis by (simp add: d startMain_def)
qed

text \<open>
  Claim C10. A \<open>lambda.Start()\<close> call without arguments yields no reference and leaves
  \<open>handlerRef\<close> as it was; the search goes on, so the result for a \<open>main\<close> with such a
  call among its statements is the result for the same \<open>main\<close> without it. When that call
  is the only statement of the only \<open>main\<close>, \<open>findLambdaHandler\<close> fails with
  \<open>StartCallNotFound\<close>, as it does for an empty body, and the run stops with that error
  before anything is rewritten.
\<close>

theorem zero_argument_start_skipped:
  "startCallHandler lambdaStart [] = None \<and>
   inspectExpr (CallExpr lambdaStart []) r = r \<and>
   findLambdaHandler
     (f\<lparr>Decls := pre @ [FuncDecl recv ''main'' params results
                          (Some (ss1 @ [ExprStmt (CallExpr lambdaStart [])] @ ss2))] @ post\<rparr>) =
   findLambdaHandler
     (f\<lparr>Decls := pre @ [FuncDecl recv ''main'' params results (Some (ss1 @ ss2))] @ post\<rparr>) \<and>
   ((\<forall>d \<in> set (pre @ post). \<not> isMain d) \<longrightarrow>
      findLambdaHandler
        (f\<lparr>Decls := pre @ [FuncDecl recv ''main'' params results
                             (Some [ExprStmt (CallExpr lambdaStart [])])] @ post\<rparr>) =
        Inl StartCallNotFound \<and>
      findLambdaHandler
        (f\<lparr>Decls := pre @ [FuncDecl recv ''main'' params results (Some [])] @ post\<rparr>) =
        Inl StartCallNotFound \<and>
      migrate orderMissing orderSpecs loaded
        (f\<lparr>Decls := pre @ [FuncDecl recv ''main'' params results
                             (Some [ExprStmt (CallExpr lambdaStart [])])] @ post\<rparr>) =
        Inl StartCallNotFound)"
proof -
  have none: "startCallHandler lambdaStart [] = None"
    by (simp add: startCallHandler_def lambdaStart_def)
  have skip: "inspectExpr (CallExpr lambdaStart []) r' = r'" for r'
    unfolding lambdaStart_def by (simp add: startCallHandler_def)
  have stmts: "inspectStmts (ss1 @ ExprStmt (CallExpr lambdaStart []) # ss2) r' =
      inspectStmts (ss1 @ ss2) r'" for r'
    using skip by (simp add: inspectStmts_append del: inspectExpr.simps)
  have same: "findLambdaHandler
     (f\<lparr>Decls := pre @ [FuncDecl recv ''main'' params results
                          (Some (ss1 @ [ExprStmt (CallExpr lambdaStart [])] @ ss2))] @ post\<rparr>) =
   findLambdaHandler
     (f\<lparr>Decls := pre @ [FuncDecl recv ''main'' params results (Some (ss1 @ ss2))] @ post\<rparr>)"
    by (simp add: findLambdaHandler_def inspectMain_append stmts cong: sum.case_cong)
  have nf: "findLambdaHandler
        (f\<lparr>Decls := pre @ [FuncDecl recv ''main'' params results (Some b)] @ post\<rparr>) =
        (case inspectStmts b None of None \<Rightarrow> Inl StartCallNotFound | Some h \<Rightarrow> Inr h)"
    if "\<forall>d \<in> set (pre @ post). \<not> isMain d" for b
    using that by (simp add: findLambdaHandler_def inspectMain_append inspectMain_no_main)
  have run: "migrate orderMissing orderSpecs loaded g = Inl StartCallNotFound"
    if "findLambdaHandler g = Inl StartCallNotFound" for g
    using that by (simp add: migrate_def)
  show ?thesis
    using none skip same nf [of "[ExprStmt (CallExpr lambdaStart [])]"] nf [of "[]"] run
    by (simp del: inspectExpr.simps)
qed

theorem zero_argument_start_skipped_witness:
  "\<not> isMain (GenDecl T_IMPORT [lambdaImport]) \<and> \<not> isMain plainHandler \<and>
   findLambdaHandler zeroArgFile = Inl StartCallNotFound \<and>
   migrate declOrder declOrder (Inl TypeLoadFailed) zeroArgFile = Inl StartCallNotFound"
proof -
  have nm: "\<forall>d \<in> set ([GenDecl T_IMPORT [lambdaImport], plainHandler] @ []). \<not> isMain d"
    by (simp add: plainHandler_def)
  have z: "zeroArgFile =
      zeroArgFile\<lparr>Decls := [GenDecl T_IMPORT [lambdaImport], plainHandler] @
        [FuncDecl [] ''main'' [] [] (Some [ExprStmt (CallExpr lambdaStart [])])] @ []\<rparr>"
    by (simp add: zeroArgFile_def startMain_def lambdaStart_def)
  from zero_argument_start_skipped [where f = zeroArgFile
      and pre = "[GenDecl T_IMPORT [lambdaImport], plainHandler]" and post = "[]"
      and recv = "[]" and params = "[]" and results = "[]"
      and orderMissing = declOrder and orderSpecs = declOrder
      and loaded = "Inl TypeLoadFailed"] nm z
  show ?thesis by (simp add: plainHandler_def)
qed

section \<open>Properties of the import rewriter\<close>

text \<open>
  Claim C6. The claim is that no import with \<open>aws-lambda-go\<close> in its path survives. For a
  file with the two declarations \<open>import "github.com/aws/aws-lambda-go/lambda"\<close> and
  \<open>import "github.com/aws/aws-lambda-go/lambdacontext"\<close>, \<open>removeLambdaImport\<close> deletes
  the first declaration, and the shift moves the second into the slot the loop has just
  left, so the second is never looked at: it stays in the result of
  \<open>removeLambdaImport\<close> and in the output of the whole run.
\<close>

theorem removeLambdaImport_skips_declaration:
  "removeLambdaImport twoImportDeclsFile =
     Inr \<lparr>Name = ''main'',
          Decls =
            [GenDecl T_IMPORT [createImportSpec ''github.com/aws/aws-lambda-go/lambdacontext''],
             plainHandler,
             startMain [Ident ''handleRequest'']]\<rparr> \<and>
   firstSpecs (migrate declOrder declOrder (Inl TypeLoadFailed) twoImportDeclsFile) =
     [createImportSpec ''github.com/aws/aws-lambda-go/lambdacontext'',
      createImportSpec ''context'', createImportSpec ''net/http'', createImportSpec ''log'']"
  by code_simp

text \<open>
  Claim C7. The claim is that the logging call uses the file's alias of \<open>log\<close>. For a
  file that imports \<open>log\<close> as \<open>stdlog\<close>, with a handler that returns an error, the run
  adds no plain \<open>log\<close> import (the module counts as present) and the error guard of the
  dispatch method calls \<open>log.Printf\<close>, not \<open>stdlog.Printf\<close>.
\<close>

theorem log_alias_ignored:
  "migrate declOrder declOrder (Inl TypeLoadFailed) aliasedLogFile =
     Inr \<lparr>Name = ''main'',
          Decls =
            [GenDecl T_IMPORT
               [createImportSpec ''context'',
                ImportSpec (Some ''stdlog'') (dquote # ''log'' @ [dquote]),
                createImportSpec ''net/http''],
             errorHandler,
             createHandlerStruct,
             createNewFunc,
             FuncDecl [Field [''h''] (StarExpr (Ident ''Handler''))] ''Handle''
               [Field [''ctx''] (SelectorExpr (Ident ''context'') ''Context''),
                Field [''w''] (SelectorExpr (Ident ''http'') ''ResponseWriter''),
                Field [''r''] (StarExpr (SelectorExpr (Ident ''http'') ''Request''))]
               []
               (Some
                  [AssignStmt [Ident ''err''] T_DEFINE
                     [CallExpr (Ident ''handleRequest'') [Ident ''ctx'']],
                   IfStmt (BinaryExpr (Ident ''err'') T_NEQ (Ident ''nil''))
                     [ExprStmt (CallExpr (SelectorExpr (Ident ''log'') ''Printf'')
                        [BasicLit T_STRING (dquote # ''Handler error: %v'' @ [dquote]),
                         Ident ''err'']),
                      ExprStmt (CallExpr (SelectorExpr (Ident ''w'') ''WriteHeader'')
                        [BasicLit T_INT ''500'']),
                      ReturnStmt []]
                     []])]\<rparr>"
  by code_simp

text \<open>
  Claim C8. The claim is that two runs on the same input give the same output. For a
  file that lacks \<open>net/http\<close>, \<open>io\<close> and \<open>log\<close>, two iteration orders of the map (the
  order of the map literal, and the same order started at \<open>io\<close>) give import lists in
  different orders, hence different outputs.
\<close>

theorem import_order_varies:
  "isKeyOrder declOrder \<and> isKeyOrder rotatedOrder \<and>
   firstSpecs (migrate declOrder declOrder (Inl TypeLoadFailed) fullHandlerFile) =
     [createImportSpec ''context'', createImportSpec ''encoding/json'',
      createImportSpec ''net/http'', createImportSpec ''io'', createImportSpec ''log''] \<and>
   firstSpecs (migrate rotatedOrder declOrder (Inl TypeLoadFailed) fullHandlerFile) =
     [createImportSpec ''context'', createImportSpec ''encoding/json'',
      createImportSpec ''io'', createImportSpec ''log'', createImportSpec ''net/http''] \<and>
   migrate declOrder declOrder (Inl TypeLoadFailed) fullHandlerFile \<noteq>
   migrate rotatedOrder declOrder (Inl TypeLoadFailed) fullHandlerFile"
  by code_simp

section \<open>Properties of the orchestrator\<close>

lemma otherDecls_append [simp]: "otherDecls (xs @ ys) = otherDecls xs @ otherDecls ys"
  by (simp add: otherDecls_def)
















text \<open>
  Without a declaration behind the imports the loop of \<open>removeLambdaImport\<close> can run
  into the slots it has vacated: for a file of two import declarations that both become
  empty, the second removal slices past the length of \<open>file.Decls\<close>. The run never gets
  there with such a file, since \<open>findLambdaHandler\<close> has failed before.
\<close>

lemma removeLambdaImport_trailing_import:
  "removeLambdaImport importsOnlyFile = Inl Panic \<and>
   findLambdaHandler importsOnlyFile = Inl EntryNotFound"
  by code_simp



end
